theory Spec2Isabelle
  imports Main "HOL-Library.Word"
begin

section \<open>JavaScript values used by the example components\<close>

subsection \<open>Strings\<close>

text \<open>
  A JavaScript string is a sequence of UTF-16 code units. \<open>js\<close> writes an ASCII
  literal of the source as such a sequence.
\<close>

type_synonym code_unit = "16 word"
type_synonym jsstring = "code_unit list"

definition js :: "string \<Rightarrow> jsstring" where
  "js s = map (\<lambda>c. of_nat (of_char c)) s"

text \<open>
  \<open>String.prototype.trim\<close> removes white space and line terminators from both ends:
  TAB, LF, VT, FF, CR, SP, NBSP, the Unicode space separators, LS, PS and the BOM.
\<close>

definition isWhiteSpace :: "code_unit \<Rightarrow> bool" where
  "isWhiteSpace c \<longleftrightarrow>
     c \<in> set [0x0009, 0x000A, 0x000B, 0x000C, 0x000D, 0x0020, 0x00A0, 0x1680,
              0x2000, 0x2001, 0x2002, 0x2003, 0x2004, 0x2005, 0x2006, 0x2007,
              0x2008, 0x2009, 0x200A, 0x2028, 0x2029, 0x202F, 0x205F, 0x3000, 0xFEFF]"

definition trim :: "jsstring \<Rightarrow> jsstring" where
  "trim s = rev (dropWhile isWhiteSpace (rev (dropWhile isWhiteSpace s)))"

subsection \<open>Numbers\<close>

text \<open>
  A JavaScript number is an IEEE 754 double. A count starts at 0 and is only ever
  replaced by 0 or by itself plus or minus 1, so it is always a finite double with an
  integer value: it is held as that integer. Every integer of magnitude up to \<open>2 ^ 53\<close> is
  a double; beyond, a double keeps 53 significant bits. \<open>round_double\<close> rounds an integer
  to the nearest double, a tie going to the even significand, as \<open>+\<close> and \<open>-\<close> round their
  exact result; \<open>excess_bits m\<close> is the number of low bits of \<open>m\<close> that do not fit.
  Adding or subtracting 1 never overflows a finite double.
\<close>

type_synonym number = int

fun excess_bits :: "nat \<Rightarrow> nat" where
  "excess_bits m = (if m < 2 ^ 53 then 0 else Suc (excess_bits (m div 2)))"

declare excess_bits.simps [simp del]

definition round_double :: "int \<Rightarrow> number" where
  "round_double x =
     (let m = nat \<bar>x\<bar>;
          e = excess_bits m;
          q = m div 2 ^ e;
          r = m mod 2 ^ e;
          q' = (if 2 * r > 2 ^ e \<or> (2 * r = 2 ^ e \<and> odd q) then q + 1 else q)
      in sgn x * int (q' * 2 ^ e))"

definition number_add :: "number \<Rightarrow> number \<Rightarrow> number" where
  "number_add a b = round_double (a + b)"

definition number_sub :: "number \<Rightarrow> number \<Rightarrow> number" where
  "number_sub a b = round_double (a - b)"

subsection \<open>Arrays on a heap\<close>

text \<open>
  An array is an object: state hooks hold a reference to it, and \<open>filter\<close>, spread and
  array literals allocate a new one. A slot of an array is empty (a hole, left by a write
  beyond the end), holds \<open>undefined\<close>, or holds an element. Only the indexed slots are
  modelled: a property written under a negative index is seen by neither \<open>length\<close>,
  \<open>map\<close>, \<open>filter\<close> nor spread.
\<close>

datatype 'a slot = Hole | Undefined | Elem 'a

type_synonym 'a jsarray = "'a slot list"
type_synonym ref = nat
type_synonym 'a heap = "'a jsarray list"

definition deref :: "'a heap \<Rightarrow> ref \<Rightarrow> 'a jsarray" where
  "deref h r = (if r < length h then h ! r else [])"

definition alloc :: "'a heap \<Rightarrow> 'a jsarray \<Rightarrow> 'a heap \<times> ref" where
  "alloc h xs = (h @ [xs], length h)"

text \<open>Reading \<open>a[i]\<close>: a hole and an index out of range both read as \<open>undefined\<close>.\<close>

definition array_get :: "'a jsarray \<Rightarrow> int \<Rightarrow> 'a slot" where
  "array_get xs i =
     (if 0 \<le> i \<and> i < int (length xs)
      then (case xs ! nat i of Hole \<Rightarrow> Undefined | v \<Rightarrow> v)
      else Undefined)"

text \<open>Writing \<open>a[i] = v\<close>: a write beyond the end extends the array, leaving holes.\<close>

definition array_set :: "'a jsarray \<Rightarrow> int \<Rightarrow> 'a slot \<Rightarrow> 'a jsarray" where
  "array_set xs i v =
     (if i < 0 then xs
      else if i < int (length xs) then xs[nat i := v]
      else xs @ replicate (nat i - length xs) Hole @ [v])"

definition heap_set :: "'a heap \<Rightarrow> ref \<Rightarrow> int \<Rightarrow> 'a slot \<Rightarrow> 'a heap" where
  "heap_set h r i v = (if r < length h then h[r := array_set (h ! r) i v] else h)"

text \<open>Spread \<open>[...a]\<close> iterates the array: a hole is copied as \<open>undefined\<close>.\<close>

definition spread :: "'a jsarray \<Rightarrow> 'a jsarray" where
  "spread xs = map (\<lambda>v. case v of Hole \<Rightarrow> Undefined | _ \<Rightarrow> v) xs"

text \<open>\<open>a.filter((x, i) => p x i)\<close> skips holes and keeps the slots that satisfy \<open>p\<close>.\<close>

definition array_filter :: "('a slot \<Rightarrow> int \<Rightarrow> bool) \<Rightarrow> 'a jsarray \<Rightarrow> 'a jsarray" where
  "array_filter p xs =
     map fst (filter (\<lambda>(x, i). x \<noteq> Hole \<and> p x (int i)) (zip xs [0..<length xs]))"

text \<open>\<open>a.map((x, i) => f x i)\<close> as rendered: a hole yields no child.\<close>

definition array_map :: "('a slot \<Rightarrow> int \<Rightarrow> 'b) \<Rightarrow> 'a jsarray \<Rightarrow> 'b list" where
  "array_map f xs =
     map (\<lambda>(x, i). f x (int i)) (filter (\<lambda>(x, i). x \<noteq> Hole) (zip xs [0..<length xs]))"

section \<open>The state hook\<close>

text \<open>
  \<open>useState\<close> gives a component the value of the current render and a setter. A setter
  call does not change that value: it queues either a replacement value or an updater
  function. The next render runs the queue in order, each updater receiving the value
  produced so far. An updater may allocate (it builds arrays), so it is run on the heap.
\<close>

datatype ('e, 'a) action =
    SetValue 'a
  | Updater "'e heap \<Rightarrow> 'a \<Rightarrow> 'e heap \<times> 'a"

record ('e, 'a) hook =
  cur :: 'a
  pending :: "('e, 'a) action list"

definition useState :: "'a \<Rightarrow> ('e, 'a) hook" where
  "useState v = \<lparr>cur = v, pending = []\<rparr>"

definition setState :: "('e, 'a) action \<Rightarrow> ('e, 'a) hook \<Rightarrow> ('e, 'a) hook" where
  "setState a k = k\<lparr>pending := pending k @ [a]\<rparr>"

text \<open>An updater that only computes, such as \<open>c => c + 1\<close>.\<close>

definition updater :: "('a \<Rightarrow> 'a) \<Rightarrow> ('e, 'a) action" where
  "updater f = Updater (\<lambda>h v. (h, f v))"

fun run_queue :: "'e heap \<Rightarrow> ('e, 'a) action list \<Rightarrow> 'a \<Rightarrow> 'e heap \<times> 'a" where
  "run_queue h [] v = (h, v)"
| "run_queue h (SetValue x # q) v = run_queue h q x"
| "run_queue h (Updater f # q) v = (case f h v of (h', v') \<Rightarrow> run_queue h' q v')"

definition commit :: "'e heap \<Rightarrow> ('e, 'a) hook \<Rightarrow> 'e heap \<times> ('e, 'a) hook" where
  "commit h k = (case run_queue h (pending k) (cur k) of (h', v) \<Rightarrow> (h', useState v))"

section \<open>The to-do list\<close>

record ToDoList =
  tasks :: "(jsstring, ref) hook"
  newTask :: "(jsstring, jsstring) hook"

text \<open>The heap and state of the first render: the three initial tasks and an empty input.\<close>

definition ToDoList_init :: "jsstring heap \<times> ToDoList" where
  "ToDoList_init =
     ([[Elem (js ''Wake up''), Elem (js ''Brush Teeth''), Elem (js ''Eat Breakfast'')]],
      \<lparr>tasks = useState 0, newTask = useState []\<rparr>)"

definition ToDoList_render :: "jsstring heap \<Rightarrow> ToDoList \<Rightarrow> jsstring heap \<times> ToDoList" where
  "ToDoList_render h c =
     (case commit h (tasks c) of (h1, t) \<Rightarrow>
      case commit h1 (newTask c) of (h2, n) \<Rightarrow>
        (h2, \<lparr>tasks = t, newTask = n\<rparr>))"

definition handleInputChange :: "jsstring \<Rightarrow> ToDoList \<Rightarrow> ToDoList" where
  "handleInputChange value c = c\<lparr>newTask := setState (SetValue value) (newTask c)\<rparr>"

definition handleAddTask :: "jsstring heap \<Rightarrow> ToDoList \<Rightarrow> jsstring heap \<times> ToDoList" where
  "handleAddTask h c =
     (if trim (cur (newTask c)) \<noteq> [] then
        (case alloc h (spread (deref h (cur (tasks c))) @ [Elem (trim (cur (newTask c)))]) of
           (h1, arr) \<Rightarrow>
             (h1, c\<lparr>tasks := setState (SetValue arr) (tasks c),
                    newTask := setState (SetValue []) (newTask c)\<rparr>))
      else (h, c))"

definition handleDeleteTask :: "int \<Rightarrow> jsstring heap \<Rightarrow> ToDoList \<Rightarrow> jsstring heap \<times> ToDoList" where
  "handleDeleteTask index h c =
     (case alloc h (array_filter (\<lambda>_ i. i \<noteq> index) (deref h (cur (tasks c)))) of
        (h1, updatedTasks) \<Rightarrow>
          (h1, c\<lparr>tasks := setState (SetValue updatedTasks) (tasks c)\<rparr>))"

text \<open>
  The destructuring swap \<open>[a[i], a[j]] = [a[j], a[i]]\<close> first reads both right-hand
  elements into a temporary pair and then writes the left-hand targets from left to right.
\<close>

definition moveTaskUp :: "int \<Rightarrow> jsstring heap \<Rightarrow> ToDoList \<Rightarrow> jsstring heap \<times> ToDoList" where
  "moveTaskUp index h c =
     (if index = 0 then (h, c)
      else
        (case alloc h (spread (deref h (cur (tasks c)))) of
           (h1, updatedTasks) \<Rightarrow>
             let t0 = array_get (deref h1 updatedTasks) index;
                 t1 = array_get (deref h1 updatedTasks) (index - 1);
                 h2 = heap_set h1 updatedTasks (index - 1) t0;
                 h3 = heap_set h2 updatedTasks index t1
             in (h3, c\<lparr>tasks := setState (SetValue updatedTasks) (tasks c)\<rparr>)))"

definition moveTaskDown :: "int \<Rightarrow> jsstring heap \<Rightarrow> ToDoList \<Rightarrow> jsstring heap \<times> ToDoList" where
  "moveTaskDown index h c =
     (if index = - 1 then (h, c)
      else
        (case alloc h (spread (deref h (cur (tasks c)))) of
           (h1, updatedTasks) \<Rightarrow>
             let t0 = array_get (deref h1 updatedTasks) index;
                 t1 = array_get (deref h1 updatedTasks) (index + 1);
                 h2 = heap_set h1 updatedTasks (index + 1) t0;
                 h3 = heap_set h2 updatedTasks index t1
             in (h3, c\<lparr>tasks := setState (SetValue updatedTasks) (tasks c)\<rparr>)))"

text \<open>
  The rendered list: \<open>tasks.map((task, index) => <li key={index}>...)\<close>. Each item is
  modelled by its key and the task it shows.
\<close>

record ('k, 'c) li =
  key :: 'k
  content :: 'c

definition ToDoList_items :: "jsstring heap \<Rightarrow> ToDoList \<Rightarrow> (int, jsstring slot) li list" where
  "ToDoList_items h c =
     array_map (\<lambda>task index. \<lparr>key = index, content = task\<rparr>) (deref h (cur (tasks c)))"

section \<open>Form inputs as rendered\<close>

text \<open>
  An \<open>input\<close>, \<open>textarea\<close> or \<open>select\<close> element of a render, with the props that
  decide who owns its displayed value: \<open>value\<close>, \<open>checked\<close> and \<open>onChange\<close>. The
  handler is given \<open>event.target.value\<close>. Numbers are kept abstract (\<open>'n\<close>).
\<close>

datatype 'n prop_value = Str jsstring | Num 'n

record ('n, 'st) input_element =
  tag :: string
  type_attr :: "string option"
  value_prop :: "'n prop_value option"
  checked_prop :: "bool option"
  onChange :: "(jsstring \<Rightarrow> 'st \<Rightarrow> 'st) option"

definition ToDoList_inputs :: "ToDoList \<Rightarrow> ('n, ToDoList) input_element list" where
  "ToDoList_inputs c =
     [\<lparr>tag = ''input'', type_attr = Some ''text'', value_prop = Some (Str (cur (newTask c))),
       checked_prop = None, onChange = Some handleInputChange\<rparr>]"

section \<open>The counters\<close>

text \<open>
  Two components hold one number \<open>count\<close>: the updater-function example
  (\<open>handleIncrement\<close>, \<open>handleDecrement\<close>, \<open>handleReset\<close>) and the \<open>Counter\<close> of the
  \<open>useState\<close> notes (\<open>increment\<close>, \<open>decrement\<close>, \<open>reset\<close>). The count is a
  number; \<open>c + 1\<close> and \<open>c - 1\<close> are the rounded \<open>number_add\<close> and \<open>number_sub\<close>.
\<close>

record 'e Counter =
  count :: "('e, number) hook"

definition Counter_init :: "'e Counter" where
  "Counter_init = \<lparr>count = useState 0\<rparr>"

definition Counter_render :: "'e heap \<Rightarrow> 'e Counter \<Rightarrow> 'e heap \<times> 'e Counter" where
  "Counter_render h c = (case commit h (count c) of (h1, n) \<Rightarrow> (h1, \<lparr>count = n\<rparr>))"

definition handleIncrement :: "'e Counter \<Rightarrow> 'e Counter" where
  "handleIncrement c = c\<lparr>count := setState (updater (\<lambda>c. number_add c 1)) (count c)\<rparr>"

definition handleDecrement :: "'e Counter \<Rightarrow> 'e Counter" where
  "handleDecrement c = c\<lparr>count := setState (updater (\<lambda>c. number_sub c 1)) (count c)\<rparr>"

definition handleReset :: "'e Counter \<Rightarrow> 'e Counter" where
  "handleReset c = c\<lparr>count := setState (SetValue 0) (count c)\<rparr>"

definition increment :: "'e Counter \<Rightarrow> 'e Counter" where
  "increment c = c\<lparr>count := setState (SetValue (number_add (cur (count c)) 1)) (count c)\<rparr>"

definition decrement :: "'e Counter \<Rightarrow> 'e Counter" where
  "decrement c = c\<lparr>count := setState (SetValue (number_sub (cur (count c)) 1)) (count c)\<rparr>"

definition reset :: "'e Counter \<Rightarrow> 'e Counter" where
  "reset c = c\<lparr>count := setState (SetValue 0) (count c)\<rparr>"

section \<open>The car inventory\<close>

text \<open>The \<open>Car\<close> interface; its field \<open>make\<close> is written \<open>make'\<close>.\<close>

record 'n Car =
  year :: 'n
  make' :: jsstring
  model :: jsstring

record 'n CarInventory =
  cars :: "('n Car, ref) hook"
  carYear :: "('n Car, 'n) hook"
  carMake :: "('n Car, jsstring) hook"
  carModel :: "('n Car, jsstring) hook"

text \<open>The first render: an empty array of cars and the year \<open>getFullYear\<close> of that moment.\<close>

definition CarInventory_init :: "'n \<Rightarrow> 'n Car heap \<times> 'n CarInventory" where
  "CarInventory_init getFullYear =
     ([[]], \<lparr>cars = useState 0, carYear = useState getFullYear, carMake = useState [],
             carModel = useState []\<rparr>)"

definition CarInventory_render ::
  "'n Car heap \<Rightarrow> 'n CarInventory \<Rightarrow> 'n Car heap \<times> 'n CarInventory" where
  "CarInventory_render h c =
     (case commit h (cars c) of (h1, cs) \<Rightarrow>
      case commit h1 (carYear c) of (h2, y) \<Rightarrow>
      case commit h2 (carMake c) of (h3, mk) \<Rightarrow>
      case commit h3 (carModel c) of (h4, md) \<Rightarrow>
        (h4, \<lparr>cars = cs, carYear = y, carMake = mk, carModel = md\<rparr>))"

text \<open>\<open>getFullYear\<close> is the result of \<open>new Date().getFullYear()\<close> at the time of the call.\<close>

definition handleAddCar :: "'n \<Rightarrow> 'n CarInventory \<Rightarrow> 'n CarInventory" where
  "handleAddCar getFullYear c =
     (let newCar = \<lparr>year = cur (carYear c), make' = cur (carMake c), model = cur (carModel c)\<rparr>
      in c\<lparr>cars := setState (Updater (\<lambda>h c. alloc h (spread (deref h c) @ [Elem newCar]))) (cars c),
            carYear := setState (SetValue getFullYear) (carYear c),
            carMake := setState (SetValue []) (carMake c),
            carModel := setState (SetValue []) (carModel c)\<rparr>)"

definition handleRemoveCar ::
  "int \<Rightarrow> 'n Car heap \<Rightarrow> 'n CarInventory \<Rightarrow> 'n Car heap \<times> 'n CarInventory" where
  "handleRemoveCar index h c =
     (case alloc h (array_filter (\<lambda>_ i. i \<noteq> index) (deref h (cur (cars c)))) of
        (h1, arr) \<Rightarrow> (h1, c\<lparr>cars := setState (SetValue arr) (cars c)\<rparr>))"

text \<open>\<open>Number\<close> is JavaScript's conversion of a string to a number.\<close>

definition handleCarYearChange ::
  "(jsstring \<Rightarrow> 'n) \<Rightarrow> jsstring \<Rightarrow> 'n CarInventory \<Rightarrow> 'n CarInventory" where
  "handleCarYearChange Number value c = c\<lparr>carYear := setState (SetValue (Number value)) (carYear c)\<rparr>"

definition handleCarMakeChange :: "jsstring \<Rightarrow> 'n CarInventory \<Rightarrow> 'n CarInventory" where
  "handleCarMakeChange value c = c\<lparr>carMake := setState (SetValue value) (carMake c)\<rparr>"

definition handleCarModelChange :: "jsstring \<Rightarrow> 'n CarInventory \<Rightarrow> 'n CarInventory" where
  "handleCarModelChange value c = c\<lparr>carModel := setState (SetValue value) (carModel c)\<rparr>"

definition CarInventory_items ::
  "'n Car heap \<Rightarrow> 'n CarInventory \<Rightarrow> (int, 'n Car slot) li list" where
  "CarInventory_items h c =
     array_map (\<lambda>car index. \<lparr>key = index, content = car\<rparr>) (deref h (cur (cars c)))"

definition CarInventory_inputs ::
  "(jsstring \<Rightarrow> 'n) \<Rightarrow> 'n CarInventory \<Rightarrow> ('n, 'n CarInventory) input_element list" where
  "CarInventory_inputs Number c =
     [\<lparr>tag = ''input'', type_attr = Some ''number'', value_prop = Some (Num (cur (carYear c))),
       checked_prop = None, onChange = Some (handleCarYearChange Number)\<rparr>,
      \<lparr>tag = ''input'', type_attr = Some ''text'', value_prop = Some (Str (cur (carMake c))),
       checked_prop = None, onChange = Some handleCarMakeChange\<rparr>,
      \<lparr>tag = ''input'', type_attr = Some ''text'', value_prop = Some (Str (cur (carModel c))),
       checked_prop = None, onChange = Some handleCarModelChange\<rparr>]"

section \<open>The car details\<close>

record ('e, 'n) CarDetails =
  car :: "('e, 'n Car) hook"

definition CarDetails_init :: "('e, int) CarDetails" where
  "CarDetails_init = \<lparr>car = useState \<lparr>year = 2020, make' = js ''Toyota'', model = js ''Corolla''\<rparr>\<rparr>"

definition CarDetails_render ::
  "'e heap \<Rightarrow> ('e, 'n) CarDetails \<Rightarrow> 'e heap \<times> ('e, 'n) CarDetails" where
  "CarDetails_render h c = (case commit h (car c) of (h1, k) \<Rightarrow> (h1, \<lparr>car = k\<rparr>))"

definition handleYearChange ::
  "(jsstring \<Rightarrow> 'n) \<Rightarrow> jsstring \<Rightarrow> ('e, 'n) CarDetails \<Rightarrow> ('e, 'n) CarDetails" where
  "handleYearChange Number value c =
     c\<lparr>car := setState (updater (\<lambda>car. car\<lparr>year := Number value\<rparr>)) (car c)\<rparr>"

text \<open>\<open>String\<close> applied to a string returns it.\<close>

definition handleMakeChange :: "jsstring \<Rightarrow> ('e, 'n) CarDetails \<Rightarrow> ('e, 'n) CarDetails" where
  "handleMakeChange value c =
     c\<lparr>car := setState (updater (\<lambda>car. car\<lparr>make' := value\<rparr>)) (car c)\<rparr>"

definition handleModelChange :: "jsstring \<Rightarrow> ('e, 'n) CarDetails \<Rightarrow> ('e, 'n) CarDetails" where
  "handleModelChange value c =
     c\<lparr>car := setState (updater (\<lambda>car. car\<lparr>model := value\<rparr>)) (car c)\<rparr>"

definition CarDetails_inputs ::
  "(jsstring \<Rightarrow> 'n) \<Rightarrow> ('e, 'n) CarDetails \<Rightarrow> ('n, ('e, 'n) CarDetails) input_element list" where
  "CarDetails_inputs Number c =
     [\<lparr>tag = ''input'', type_attr = Some ''number'', value_prop = Some (Num (year (cur (car c)))),
       checked_prop = None, onChange = Some (handleYearChange Number)\<rparr>,
      \<lparr>tag = ''input'', type_attr = Some ''text'', value_prop = Some (Str (make' (cur (car c)))),
       checked_prop = None, onChange = Some handleMakeChange\<rparr>,
      \<lparr>tag = ''input'', type_attr = Some ''text'', value_prop = Some (Str (model (cur (car c)))),
       checked_prop = None, onChange = Some handleModelChange\<rparr>]"

section \<open>The food list\<close>

text \<open>
  The food input is not bound to state: the handler reads and clears the value of the
  DOM element with id \<open>foodInput\<close>. \<open>document\<close> holds that value.
\<close>

record document =
  foodInput :: jsstring

record FoodList =
  food :: "(jsstring, ref) hook"

definition FoodList_init :: "jsstring heap \<times> FoodList" where
  "FoodList_init =
     ([[Elem (js ''Apple''), Elem (js ''Banana''), Elem (js ''Orange'')]], \<lparr>food = useState 0\<rparr>)"

definition FoodList_render :: "jsstring heap \<Rightarrow> FoodList \<Rightarrow> jsstring heap \<times> FoodList" where
  "FoodList_render h c = (case commit h (food c) of (h1, f) \<Rightarrow> (h1, \<lparr>food = f\<rparr>))"

definition handleAddFood :: "document \<Rightarrow> FoodList \<Rightarrow> document \<times> FoodList" where
  "handleAddFood d c =
     (let newFood = foodInput d
      in (d\<lparr>foodInput := []\<rparr>,
          c\<lparr>food := setState (Updater (\<lambda>h f. alloc h (spread (deref h f) @ [Elem newFood]))) (food c)\<rparr>))"

definition handleRemoveFood :: "int \<Rightarrow> FoodList \<Rightarrow> FoodList" where
  "handleRemoveFood index c =
     c\<lparr>food := setState (Updater (\<lambda>h f. alloc h (array_filter (\<lambda>_ i. i \<noteq> index) (deref h f)))) (food c)\<rparr>"

definition FoodList_items :: "jsstring heap \<Rightarrow> FoodList \<Rightarrow> (int, jsstring slot) li list" where
  "FoodList_items h c =
     array_map (\<lambda>item index. \<lparr>key = index, content = item\<rparr>) (deref h (cur (food c)))"

definition FoodList_inputs :: "FoodList \<Rightarrow> ('n, FoodList) input_element list" where
  "FoodList_inputs c =
     [\<lparr>tag = ''input'', type_attr = Some ''text'', value_prop = None,
       checked_prop = None, onChange = None\<rparr>]"

section \<open>The color picker\<close>

record 'e ColorPicker =
  color :: "('e, jsstring) hook"

definition ColorPicker_init :: "'e ColorPicker" where
  "ColorPicker_init = \<lparr>color = useState (js ''#FFFFFF'')\<rparr>"

definition ColorPicker_render :: "'e heap \<Rightarrow> 'e ColorPicker \<Rightarrow> 'e heap \<times> 'e ColorPicker" where
  "ColorPicker_render h c = (case commit h (color c) of (h1, k) \<Rightarrow> (h1, \<lparr>color = k\<rparr>))"

definition handleColorChange :: "jsstring \<Rightarrow> 'e ColorPicker \<Rightarrow> 'e ColorPicker" where
  "handleColorChange value c = c\<lparr>color := setState (SetValue value) (color c)\<rparr>"

definition ColorPicker_inputs :: "'e ColorPicker \<Rightarrow> ('n, 'e ColorPicker) input_element list" where
  "ColorPicker_inputs c =
     [\<lparr>tag = ''input'', type_attr = Some ''color'', value_prop = Some (Str (cur (color c))),
       checked_prop = None, onChange = Some handleColorChange\<rparr>]"

section \<open>The order form of the onChange example\<close>

record ('e, 'n) OrderForm =
  name :: "('e, jsstring) hook"
  quantity :: "('e, 'n) hook"
  comment :: "('e, jsstring) hook"
  payment :: "('e, jsstring) hook"
  shipping :: "('e, jsstring) hook"

definition OrderForm_init :: "('e, int) OrderForm" where
  "OrderForm_init =
     \<lparr>name = useState [], quantity = useState 0, comment = useState [], payment = useState [],
      shipping = useState (js ''Delivery'')\<rparr>"

definition OrderForm_render ::
  "'e heap \<Rightarrow> ('e, 'n) OrderForm \<Rightarrow> 'e heap \<times> ('e, 'n) OrderForm" where
  "OrderForm_render h c =
     (case commit h (name c) of (h1, n) \<Rightarrow>
      case commit h1 (quantity c) of (h2, q) \<Rightarrow>
      case commit h2 (comment c) of (h3, cm) \<Rightarrow>
      case commit h3 (payment c) of (h4, p) \<Rightarrow>
      case commit h4 (shipping c) of (h5, s) \<Rightarrow>
        (h5, \<lparr>name = n, quantity = q, comment = cm, payment = p, shipping = s\<rparr>))"

definition handleNameChange :: "jsstring \<Rightarrow> ('e, 'n) OrderForm \<Rightarrow> ('e, 'n) OrderForm" where
  "handleNameChange value c = c\<lparr>name := setState (SetValue value) (name c)\<rparr>"

definition handleQuantityChange ::
  "(jsstring \<Rightarrow> 'n) \<Rightarrow> jsstring \<Rightarrow> ('e, 'n) OrderForm \<Rightarrow> ('e, 'n) OrderForm" where
  "handleQuantityChange Number value c =
     c\<lparr>quantity := setState (SetValue (Number value)) (quantity c)\<rparr>"

definition handleCommentChange :: "jsstring \<Rightarrow> ('e, 'n) OrderForm \<Rightarrow> ('e, 'n) OrderForm" where
  "handleCommentChange value c = c\<lparr>comment := setState (SetValue value) (comment c)\<rparr>"

definition handlePaymentChange :: "jsstring \<Rightarrow> ('e, 'n) OrderForm \<Rightarrow> ('e, 'n) OrderForm" where
  "handlePaymentChange value c = c\<lparr>payment := setState (SetValue value) (payment c)\<rparr>"

definition handleShippingChange :: "jsstring \<Rightarrow> ('e, 'n) OrderForm \<Rightarrow> ('e, 'n) OrderForm" where
  "handleShippingChange value c = c\<lparr>shipping := setState (SetValue value) (shipping c)\<rparr>"

text \<open>
  The form elements in document order: the name and quantity inputs, the comment
  \<open>textarea\<close>, the payment \<open>select\<close> and the two shipping radio inputs.
\<close>

definition OrderForm_inputs ::
  "(jsstring \<Rightarrow> 'n) \<Rightarrow> ('e, 'n) OrderForm \<Rightarrow> ('n, ('e, 'n) OrderForm) input_element list" where
  "OrderForm_inputs Number c =
     [\<lparr>tag = ''input'', type_attr = None, value_prop = Some (Str (cur (name c))),
       checked_prop = None, onChange = Some handleNameChange\<rparr>,
      \<lparr>tag = ''input'', type_attr = Some ''number'', value_prop = Some (Num (cur (quantity c))),
       checked_prop = None, onChange = Some (handleQuantityChange Number)\<rparr>,
      \<lparr>tag = ''textarea'', type_attr = None, value_prop = Some (Str (cur (comment c))),
       checked_prop = None, onChange = Some handleCommentChange\<rparr>,
      \<lparr>tag = ''select'', type_attr = None, value_prop = Some (Str (cur (payment c))),
       checked_prop = None, onChange = Some handlePaymentChange\<rparr>,
      \<lparr>tag = ''input'', type_attr = Some ''radio'', value_prop = Some (Str (js ''Pickup'')),
       checked_prop = Some (cur (shipping c) = js ''Pickup''), onChange = Some handleShippingChange\<rparr>,
      \<lparr>tag = ''input'', type_attr = Some ''radio'', value_prop = Some (Str (js ''Delivery'')),
       checked_prop = Some (cur (shipping c) = js ''Delivery''), onChange = Some handleShippingChange\<rparr>]"

text \<open>
  An element is controlled when React state drives what it shows and hears its changes:
  it has a \<open>value\<close> prop (a radio input: a \<open>checked\<close> prop) and an \<open>onChange\<close> handler.
\<close>

definition is_controlled :: "('n, 'st) input_element \<Rightarrow> bool" where
  "is_controlled e \<longleftrightarrow>
     (if type_attr e = Some ''radio'' then checked_prop e \<noteq> None else value_prop e \<noteq> None)
     \<and> onChange e \<noteq> None"

section \<open>The rendered food-item list\<close>

text \<open>The \<open>FoodItem\<close> type; its field \<open>id\<close> is written \<open>id'\<close>.\<close>

record 'n FoodItem =
  id' :: 'n
  name :: jsstring
  calories :: 'n

definition List_listItems :: "'n FoodItem list \<Rightarrow> ('n, jsstring \<times> 'n) li list" where
  "List_listItems itemList =
     map (\<lambda>item. \<lparr>key = id' item, content = (FoodItem.name item, calories item)\<rparr>) itemList"

definition fruits :: "int FoodItem list" where
  "fruits = [\<lparr>id' = 1, name = js ''Apple'', calories = 95\<rparr>,
             \<lparr>id' = 2, name = js ''Banana'', calories = 105\<rparr>,
             \<lparr>id' = 3, name = js ''Cherry'', calories = 50\<rparr>,
             \<lparr>id' = 4, name = js ''Date'', calories = 20\<rparr>]"

definition groceries :: "int FoodItem list" where
  "groceries = [\<lparr>id' = 1, name = js ''Bread'', calories = 80\<rparr>,
                \<lparr>id' = 2, name = js ''Milk'', calories = 150\<rparr>,
                \<lparr>id' = 3, name = js ''Eggs'', calories = 70\<rparr>]"

section \<open>The window-size effect\<close>

text \<open>
  The window as the component sees it: its size, the event listeners registered on it (an
  event type with a function object, in registration order), the console output, and the
  number of function objects created so far. A function object is known by its identity.
\<close>

type_synonym fn = nat

record 'n window =
  innerWidth :: 'n
  innerHeight :: 'n
  listeners :: "(string \<times> fn) list"
  console :: "string list"
  created :: nat

text \<open>\<open>addEventListener\<close> does not register the same function twice for one event.\<close>

definition addEventListener :: "string \<Rightarrow> fn \<Rightarrow> 'n window \<Rightarrow> 'n window" where
  "addEventListener t f w =
     (if (t, f) \<in> set (listeners w) then w else w\<lparr>listeners := listeners w @ [(t, f)]\<rparr>)"

definition removeEventListener :: "string \<Rightarrow> fn \<Rightarrow> 'n window \<Rightarrow> 'n window" where
  "removeEventListener t f w = w\<lparr>listeners := remove1 (t, f) (listeners w)\<rparr>"

definition console_log :: "string \<Rightarrow> 'n window \<Rightarrow> 'n window" where
  "console_log s w = w\<lparr>console := console w @ [s]\<rparr>"

record ('e, 'n) WindowSize =
  width :: "('e, 'n) hook"
  height :: "('e, 'n) hook"

definition handleResize :: "'n window \<Rightarrow> ('e, 'n) WindowSize \<Rightarrow> ('e, 'n) WindowSize" where
  "handleResize w c =
     c\<lparr>width := setState (SetValue (innerWidth w)) (width c),
       height := setState (SetValue (innerHeight w)) (height c)\<rparr>"

text \<open>
  The first effect of the component, given the function object \<open>handleResize\<close> of the
  render it belongs to: it returns the window after the effect and the cleanup function.
\<close>

definition resize_effect :: "fn \<Rightarrow> 'n window \<Rightarrow> 'n window \<times> ('n window \<Rightarrow> 'n window)" where
  "resize_effect handleResize_fn w =
     (console_log ''Event Listener Added'' (addEventListener ''resize'' handleResize_fn w),
      \<lambda>w'. console_log ''Event Listener Removed'' (removeEventListener ''resize'' handleResize_fn w'))"

text \<open>
  Mounting the component: the render creates the function object \<open>handleResize\<close>, then the
  effect runs with it.
\<close>

definition WindowSize_mount :: "'n window \<Rightarrow> 'n window \<times> ('n window \<Rightarrow> 'n window)" where
  "WindowSize_mount w = resize_effect (created w) (w\<lparr>created := created w + 1\<rparr>)"

text \<open>Every registered listener is a function object that has been created.\<close>

definition listeners_exist :: "'n window \<Rightarrow> bool" where
  "listeners_exist w \<longleftrightarrow> list_all (\<lambda>(t, f). f < created w) (listeners w)"

section \<open>The counter of the first effect example\<close>

record 'e EffectExample =
  count :: "('e, number) hook"
  color :: "('e, jsstring) hook"

definition EffectExample_render :: "'e heap \<Rightarrow> 'e EffectExample \<Rightarrow> 'e heap \<times> 'e EffectExample" where
  "EffectExample_render h c =
     (case commit h (count c) of (h1, n) \<Rightarrow>
      case commit h1 (color c) of (h2, k) \<Rightarrow> (h2, \<lparr>count = n, color = k\<rparr>))"

definition handleAddCount :: "'e EffectExample \<Rightarrow> 'e EffectExample" where
  "handleAddCount c = c\<lparr>count := setState (updater (\<lambda>c. number_add c 1)) (count c)\<rparr>"

definition handleSubtractCount :: "'e EffectExample \<Rightarrow> 'e EffectExample" where
  "handleSubtractCount c = c\<lparr>count := setState (updater (\<lambda>c. number_sub c 1)) (count c)\<rparr>"

section \<open>Reading a render\<close>

text \<open>The keys a rendered list gives to the items that show \<open>x\<close>.\<close>

definition keys_of :: "'c \<Rightarrow> ('k, 'c) li list \<Rightarrow> 'k list" where
  "keys_of x items = map key (filter (\<lambda>l. content l = x) items)"

text \<open>
  The state after the user changes element \<open>e\<close> to the value \<open>v\<close> and the component
  renders again; \<open>None\<close> when the element has no change handler.
\<close>

definition after_change ::
  "('h \<Rightarrow> 'st \<Rightarrow> 'h \<times> 'st) \<Rightarrow> 'h \<Rightarrow> jsstring \<Rightarrow> 'st \<Rightarrow> ('n, 'st) input_element \<Rightarrow> ('h \<times> 'st) option" where
  "after_change render h v c e = map_option (\<lambda>f. render h (f v c)) (onChange e)"

section \<open>Facts about hooks, arrays and the heap\<close>

lemma cur_useState: "cur (useState v) = v"
  by (simp add: useState_def)

lemma commit_useState: "commit h (useState v) = (h, useState v)"
  by (simp add: commit_def useState_def)

lemma commit_SetValue: "commit h (setState (SetValue x) (useState v)) = (h, useState x)"
  by (simp add: commit_def useState_def setState_def)

lemma commit_Updater:
  "commit h (setState (Updater f) (useState v)) = (case f h v of (h', v') \<Rightarrow> (h', useState v'))"
  by (simp add: commit_def useState_def setState_def split: prod.splits)

text \<open>Integers of magnitude up to \<open>2 ^ 53\<close> are doubles: rounding leaves them as they are.\<close>

lemma excess_bits_small: "m < 2 ^ 53 \<Longrightarrow> excess_bits m = 0"
  by (simp add: excess_bits.simps)

lemma excess_bits_next: "2 ^ 53 \<le> m \<Longrightarrow> m < 2 ^ 54 \<Longrightarrow> excess_bits m = 1"
  by (subst excess_bits.simps) (simp add: excess_bits_small)

lemma round_double_exact:
  assumes "\<bar>x\<bar> \<le> 2 ^ 53"
  shows "round_double x = x"
proof (cases "\<bar>x\<bar> < 2 ^ 53")
  case True
  then have "nat \<bar>x\<bar> < 2 ^ 53" by simp
  then show ?thesis
    by (simp add: round_double_def excess_bits_small Let_def sgn_if)
next
  case False
  with assms have x: "\<bar>x\<bar> = 2 ^ 53" by simp
  then have m: "nat \<bar>x\<bar> = 2 ^ 53" by simp
  have "excess_bits (2 ^ 53) = 1" by (simp add: excess_bits_next)
  then show ?thesis
    using x by (auto simp add: round_double_def m Let_def sgn_if abs_if split: if_splits)
qed

text \<open>\<open>2 ^ 53 + 1\<close> is not a double: it lies halfway and rounds to \<open>2 ^ 53\<close>.\<close>

lemma round_double_limit: "round_double 9007199254740993 = 9007199254740992"
proof -
  have "excess_bits (nat \<bar>9007199254740993\<bar>) = 1"
    by (rule excess_bits_next) simp_all
  then show ?thesis
    by (simp add: round_double_def Let_def)
qed

text \<open>Running a queue in two parts.\<close>

lemma run_queue_append:
  "run_queue h (q @ q') v = (case run_queue h q v of (h', v') \<Rightarrow> run_queue h' q' v')"
proof (induction q arbitrary: h v)
  case Nil
  show ?case by simp
next
  case (Cons a q)
  show ?case
    by (cases a) (simp_all add: Cons.IH split: prod.splits)
qed

lemma spread_Elem: "spread (map Elem xs) = map Elem xs"
  by (simp add: spread_def)

lemma deref_alloc_new: "deref (h @ [xs]) (length h) = xs"
  by (simp add: deref_def)

lemma deref_alloc_old: "r < length h \<Longrightarrow> deref (h @ [xs]) r = deref h r"
  by (simp add: deref_def nth_append)

lemmas hook_simps = cur_useState commit_useState commit_SetValue commit_Updater
lemmas heap_simps = spread_Elem deref_alloc_new deref_alloc_old alloc_def

text \<open>Keeping the slots whose index satisfies \<open>P\<close> is \<open>nths\<close>.\<close>

lemma zip_filter_index:
  "map fst (filter (\<lambda>(x, i). P i) (zip xs [0..<length xs])) = nths xs {i. P i}"
  by (simp add: nths_def case_prod_unfold)

lemma nths_remove:
  assumes "i < length xs"
  shows "nths xs {j. j \<noteq> i} = take i xs @ drop (Suc i) xs"
proof -
  have "nths (take i xs @ xs ! i # drop (Suc i) xs) {j. j \<noteq> i} = take i xs @ drop (Suc i) xs"
    using assms by (simp add: nths_append nths_Cons nths_all min_def)
  then show ?thesis using assms by (simp add: id_take_nth_drop[symmetric])
qed

lemma array_filter_remove:
  assumes "i < length xs"
  shows "array_filter (\<lambda>_ j. j \<noteq> int i) (map Elem xs) = map Elem (take i xs @ drop (Suc i) xs)"
proof -
  have "array_filter (\<lambda>_ j. j \<noteq> int i) (map Elem xs)
      = map fst (filter (\<lambda>(x, j). j \<noteq> i) (zip (map Elem xs) [0..<length (map Elem xs)]))"
    unfolding array_filter_def
    by (rule arg_cong[where f="map fst"], rule filter_cong) (auto dest: set_zip_leftD)
  also have "\<dots> = nths (map Elem xs) {j. j \<noteq> i}"
    by (rule zip_filter_index)
  also have "\<dots> = map Elem (take i xs @ drop (Suc i) xs)"
    using assms by (simp add: nths_remove take_map drop_map)
  finally show ?thesis .
qed

lemma array_map_Elem:
  "array_map f (map Elem xs) = map (\<lambda>i. f (Elem (xs ! i)) (int i)) [0..<length xs]"
proof -
  have "filter (\<lambda>(x, i). x \<noteq> Hole) (zip (map Elem xs) [0..<length (map Elem xs)])
       = zip (map Elem xs) [0..<length (map Elem xs)]"
    by (rule filter_True) (auto dest: set_zip_leftD)
  then have "array_map f (map Elem xs) = map (\<lambda>(x, i). f x (int i)) (zip (map Elem xs) [0..<length xs])"
    by (simp add: array_map_def)
  also have "\<dots> = map (\<lambda>i. f (Elem (xs ! i)) (int i)) [0..<length xs]"
    by (rule nth_equalityI) simp_all
  finally show ?thesis .
qed

section \<open>The to-do list: adding a task\<close>

text \<open>
  Claim C2. From a rendered state with tasks \<open>ts\<close> and input \<open>nt\<close>: when \<open>nt.trim()\<close> is
  empty, \<open>handleAddTask\<close> changes neither the heap nor the state; otherwise the next render
  shows a new array holding \<open>ts\<close> followed by \<open>nt.trim()\<close>, and an empty input.
\<close>

theorem handleAddTask_spec:
  assumes "deref h r = map Elem ts"
  shows "(trim nt = [] \<longrightarrow>
            handleAddTask h \<lparr>tasks = useState r, newTask = useState nt\<rparr>
              = (h, \<lparr>tasks = useState r, newTask = useState nt\<rparr>))
       \<and> (trim nt \<noteq> [] \<longrightarrow>
            case_prod ToDoList_render (handleAddTask h \<lparr>tasks = useState r, newTask = useState nt\<rparr>)
              = (h @ [map Elem (ts @ [trim nt])],
                 \<lparr>tasks = useState (length h), newTask = useState []\<rparr>))"
  using assms
  by (simp add: handleAddTask_def hook_simps heap_simps ToDoList_render_def)

theorem handleAddTask_spec_witness:
  "deref [[Elem (js ''Wake up'')]] 0 = map Elem [js ''Wake up'']
   \<and> trim (js ''  '') = []
   \<and> handleAddTask [[Elem (js ''Wake up'')]] \<lparr>tasks = useState 0, newTask = useState (js ''  '')\<rparr>
      = ([[Elem (js ''Wake up'')]], \<lparr>tasks = useState 0, newTask = useState (js ''  '')\<rparr>)
   \<and> trim (js '' Sleep '') \<noteq> []
   \<and> case_prod ToDoList_render
        (handleAddTask [[Elem (js ''Wake up'')]] \<lparr>tasks = useState 0, newTask = useState (js '' Sleep '')\<rparr>)
      = ([[Elem (js ''Wake up'')], [Elem (js ''Wake up''), Elem (js ''Sleep'')]],
         \<lparr>tasks = useState 1, newTask = useState []\<rparr>)"
  using handleAddTask_spec [of "[[Elem (js ''Wake up'')]]" 0 "[js ''Wake up'']" "js ''  ''"]
    handleAddTask_spec [of "[[Elem (js ''Wake up'')]]" 0 "[js ''Wake up'']" "js '' Sleep ''"]
  by (simp add: deref_def trim_def js_def isWhiteSpace_def)

section \<open>The to-do list: moving a task\<close>

lemma moveTaskUp_render:
  assumes "r < length h" and "deref h r = map Elem ts" and "1 \<le> i" and "i < length ts"
  shows "case_prod ToDoList_render (moveTaskUp (int i) h \<lparr>tasks = useState r, newTask = useState nt\<rparr>)
       = (h @ [map Elem (ts[i - 1 := ts ! i, i := ts ! (i - 1)])],
          \<lparr>tasks = useState (length h), newTask = useState nt\<rparr>)"
proof -
  have i: "int i - 1 = int (i - 1)" "i - 1 < length ts" "i - Suc 0 < length ts" "ts \<noteq> []"
    using assms by auto
  show ?thesis
    using assms i
    by (simp add: moveTaskUp_def hook_simps heap_simps Let_def ToDoList_render_def heap_set_def
        array_get_def array_set_def map_update del: of_nat_diff)
qed

lemma swap_back:
  assumes "1 \<le> i" and "i < length ts"
  shows "(ts[i - 1 := ts ! i, i := ts ! (i - 1)])
           [i - 1 := ts[i - 1 := ts ! i, i := ts ! (i - 1)] ! i,
            i := ts[i - 1 := ts ! i, i := ts ! (i - 1)] ! (i - 1)] = ts"
  using assms by (intro nth_equalityI) (auto simp: nth_list_update)

text \<open>
  Claim C9. \<open>moveTaskUp(0)\<close> changes nothing. For \<open>1 \<le> i < length ts\<close> the next render
  shows a new array equal to \<open>ts\<close> with positions \<open>i - 1\<close> and \<open>i\<close> exchanged, and a second
  \<open>moveTaskUp(i)\<close> on that render shows \<open>ts\<close> again.
\<close>

theorem moveTaskUp_spec:
  assumes "r < length h" and "deref h r = map Elem ts"
  shows "moveTaskUp 0 h c = (h, c)
       \<and> (1 \<le> i \<and> i < length ts \<longrightarrow>
            case_prod ToDoList_render
                (moveTaskUp (int i) h \<lparr>tasks = useState r, newTask = useState nt\<rparr>)
              = (h @ [map Elem (ts[i - 1 := ts ! i, i := ts ! (i - 1)])],
                 \<lparr>tasks = useState (length h), newTask = useState nt\<rparr>)
          \<and> case_prod ToDoList_render (case_prod (moveTaskUp (int i))
               (case_prod ToDoList_render
                 (moveTaskUp (int i) h \<lparr>tasks = useState r, newTask = useState nt\<rparr>)))
              = (h @ [map Elem (ts[i - 1 := ts ! i, i := ts ! (i - 1)]), map Elem ts],
                 \<lparr>tasks = useState (length h + 1), newTask = useState nt\<rparr>))"
proof (intro conjI impI)
  show "moveTaskUp 0 h c = (h, c)"
    by (simp add: moveTaskUp_def)
next
  assume i: "1 \<le> i \<and> i < length ts"
  let ?ts' = "ts[i - 1 := ts ! i, i := ts ! (i - 1)]"
  let ?h' = "h @ [map Elem ?ts']"
  show first: "case_prod ToDoList_render
                (moveTaskUp (int i) h \<lparr>tasks = useState r, newTask = useState nt\<rparr>)
        = (?h', \<lparr>tasks = useState (length h), newTask = useState nt\<rparr>)"
    using assms i by (simp add: moveTaskUp_render)
  have "case_prod ToDoList_render
          (moveTaskUp (int i) ?h' \<lparr>tasks = useState (length h), newTask = useState nt\<rparr>)
        = (?h' @ [map Elem (?ts'[i - 1 := ?ts' ! i, i := ?ts' ! (i - 1)])],
           \<lparr>tasks = useState (length ?h'), newTask = useState nt\<rparr>)"
    using i by (intro moveTaskUp_render) (simp_all add: deref_alloc_new)
  then show "case_prod ToDoList_render (case_prod (moveTaskUp (int i))
               (case_prod ToDoList_render
                 (moveTaskUp (int i) h \<lparr>tasks = useState r, newTask = useState nt\<rparr>)))
              = (h @ [map Elem ?ts', map Elem ts],
                 \<lparr>tasks = useState (length h + 1), newTask = useState nt\<rparr>)"
    using i swap_back [of i ts] by (simp add: first)
qed

theorem moveTaskUp_spec_witness:
  "0 < length (fst ToDoList_init)
   \<and> deref (fst ToDoList_init) 0 = map Elem [js ''Wake up'', js ''Brush Teeth'', js ''Eat Breakfast'']
   \<and> (1::nat) \<le> 2 \<and> 2 < length [js ''Wake up'', js ''Brush Teeth'', js ''Eat Breakfast'']
   \<and> case_prod ToDoList_render (moveTaskUp 2 (fst ToDoList_init) (snd ToDoList_init))
      = (fst ToDoList_init @ [map Elem [js ''Wake up'', js ''Eat Breakfast'', js ''Brush Teeth'']],
         \<lparr>tasks = useState 1, newTask = useState []\<rparr>)"
  using moveTaskUp_spec [of 0 "fst ToDoList_init"
      "[js ''Wake up'', js ''Brush Teeth'', js ''Eat Breakfast'']" "snd ToDoList_init" 2 "[]"]
  by (simp add: ToDoList_init_def deref_def)

text \<open>
  Claim C3. \<open>moveTaskDown\<close> guards \<open>index === -1\<close>, which no rendered button passes. On the
  three initial tasks, \<open>moveTaskDown(2)\<close> (the last index) reads \<open>undefined\<close> at index 3,
  writes the last task there and \<open>undefined\<close> at index 2: the next render shows four slots.
\<close>

theorem moveTaskDown_last_index:
  "case_prod ToDoList_render (moveTaskDown 2 (fst ToDoList_init) (snd ToDoList_init))
     = (fst ToDoList_init
          @ [[Elem (js ''Wake up''), Elem (js ''Brush Teeth''), Undefined, Elem (js ''Eat Breakfast'')]],
        \<lparr>tasks = useState 1, newTask = useState []\<rparr>)"
  by (simp add: ToDoList_init_def moveTaskDown_def ToDoList_render_def commit_def setState_def
      useState_def alloc_def deref_def spread_def heap_set_def array_get_def array_set_def Let_def)

section \<open>Removing a list item\<close>

text \<open>
  Claim C5. For a list \<open>xs\<close> and an index \<open>i < length xs\<close>, each of \<open>handleDeleteTask\<close>,
  \<open>handleRemoveCar\<close> and \<open>handleRemoveFood\<close> makes the next render show a newly allocated
  array holding \<open>xs\<close> without its element at position \<open>i\<close>, the others in their order;
  the array the state referred to before still holds \<open>xs\<close>.
\<close>

theorem delete_spec:
  "(r < length h \<and> deref h r = map Elem xs \<and> i < length xs \<longrightarrow>
      case_prod ToDoList_render
          (handleDeleteTask (int i) h \<lparr>tasks = useState r, newTask = useState nt\<rparr>)
        = (h @ [map Elem (take i xs @ drop (Suc i) xs)],
           \<lparr>tasks = useState (length h), newTask = useState nt\<rparr>)
      \<and> deref (h @ [map Elem (take i xs @ drop (Suc i) xs)]) r = map Elem xs)
   \<and> (rc < length hc \<and> deref hc rc = map Elem cs \<and> j < length cs \<longrightarrow>
      case_prod CarInventory_render
          (handleRemoveCar (int j) hc
             \<lparr>cars = useState rc, carYear = useState y, carMake = useState mk, carModel = useState md\<rparr>)
        = (hc @ [map Elem (take j cs @ drop (Suc j) cs)],
           \<lparr>cars = useState (length hc), carYear = useState y, carMake = useState mk,
              carModel = useState md\<rparr>)
      \<and> deref (hc @ [map Elem (take j cs @ drop (Suc j) cs)]) rc = map Elem cs)
   \<and> (rf < length hf \<and> deref hf rf = map Elem fs \<and> k < length fs \<longrightarrow>
      FoodList_render hf (handleRemoveFood (int k) \<lparr>food = useState rf\<rparr>)
        = (hf @ [map Elem (take k fs @ drop (Suc k) fs)], \<lparr>food = useState (length hf)\<rparr>)
      \<and> deref (hf @ [map Elem (take k fs @ drop (Suc k) fs)]) rf = map Elem fs)"
  by (simp add: handleDeleteTask_def handleRemoveCar_def handleRemoveFood_def
      ToDoList_render_def CarInventory_render_def FoodList_render_def
      hook_simps heap_simps array_filter_remove)

theorem delete_spec_witness:
  "(0 < length (fst ToDoList_init)
    \<and> deref (fst ToDoList_init) 0 = map Elem [js ''Wake up'', js ''Brush Teeth'', js ''Eat Breakfast'']
    \<and> (1::nat) < length [js ''Wake up'', js ''Brush Teeth'', js ''Eat Breakfast''])
   \<and> case_prod ToDoList_render (handleDeleteTask 1 (fst ToDoList_init) (snd ToDoList_init))
        = (fst ToDoList_init @ [map Elem [js ''Wake up'', js ''Eat Breakfast'']],
           \<lparr>tasks = useState 1, newTask = useState []\<rparr>)
   \<and> (0 < length [[Elem \<lparr>year = 2020::int, make' = js ''Toyota'', model = js ''Corolla''\<rparr>]]
    \<and> deref [[Elem \<lparr>year = 2020::int, make' = js ''Toyota'', model = js ''Corolla''\<rparr>]] 0
         = map Elem [\<lparr>year = 2020, make' = js ''Toyota'', model = js ''Corolla''\<rparr>])
   \<and> case_prod CarInventory_render
          (handleRemoveCar 0 [[Elem \<lparr>year = 2020::int, make' = js ''Toyota'', model = js ''Corolla''\<rparr>]]
             \<lparr>cars = useState 0, carYear = useState 2026, carMake = useState [], carModel = useState []\<rparr>)
        = ([[Elem \<lparr>year = 2020, make' = js ''Toyota'', model = js ''Corolla''\<rparr>], []],
           \<lparr>cars = useState 1, carYear = useState 2026, carMake = useState [], carModel = useState []\<rparr>)
   \<and> (0 < length (fst FoodList_init)
    \<and> deref (fst FoodList_init) 0 = map Elem [js ''Apple'', js ''Banana'', js ''Orange''])
   \<and> FoodList_render (fst FoodList_init) (handleRemoveFood 2 (snd FoodList_init))
        = (fst FoodList_init @ [map Elem [js ''Apple'', js ''Banana'']], \<lparr>food = useState 1\<rparr>)"
  using delete_spec [of 0 "fst ToDoList_init" "[js ''Wake up'', js ''Brush Teeth'', js ''Eat Breakfast'']"
      1 "[]" 0 "[[Elem \<lparr>year = 2020::int, make' = js ''Toyota'', model = js ''Corolla''\<rparr>]]"
      "[\<lparr>year = 2020::int, make' = js ''Toyota'', model = js ''Corolla''\<rparr>]" 0 2026 "[]" "[]"
      0 "fst FoodList_init" "[js ''Apple'', js ''Banana'', js ''Orange'']" 2]
  by (simp add: ToDoList_init_def FoodList_init_def deref_def)

section \<open>Adding a car\<close>

text \<open>
  Claim C10. From a rendered state with cars \<open>cs\<close> and form fields \<open>y\<close>, \<open>mk\<close>, \<open>md\<close>,
  the render after \<open>handleAddCar\<close> shows a new array holding \<open>cs\<close> followed by the car
  \<open>{year: y, make: mk, model: md}\<close>; the make and model fields are empty and the year
  field is the current year.
\<close>

theorem handleAddCar_spec:
  assumes "deref h r = map Elem cs"
  shows "CarInventory_render h
           (handleAddCar getFullYear
              \<lparr>cars = useState r, carYear = useState y, carMake = useState mk, carModel = useState md\<rparr>)
         = (h @ [map Elem (cs @ [\<lparr>year = y, make' = mk, model = md\<rparr>])],
            \<lparr>cars = useState (length h), carYear = useState getFullYear,
               carMake = useState [], carModel = useState []\<rparr>)"
  using assms
  by (simp add: handleAddCar_def CarInventory_render_def hook_simps heap_simps Let_def)

theorem handleAddCar_spec_witness:
  "deref [[Elem \<lparr>year = 2020::int, make' = js ''Toyota'', model = js ''Corolla''\<rparr>,
           Elem \<lparr>year = 2015, make' = js ''Ford'', model = js ''Mustang''\<rparr>]] 0
     = map Elem [\<lparr>year = 2020, make' = js ''Toyota'', model = js ''Corolla''\<rparr>,
                 \<lparr>year = 2015, make' = js ''Ford'', model = js ''Mustang''\<rparr>]
   \<and> CarInventory_render
        [[Elem \<lparr>year = 2020::int, make' = js ''Toyota'', model = js ''Corolla''\<rparr>,
          Elem \<lparr>year = 2015, make' = js ''Ford'', model = js ''Mustang''\<rparr>]]
        (handleAddCar 2026
           \<lparr>cars = useState 0, carYear = useState 1999, carMake = useState (js ''Honda''),
              carModel = useState (js ''Civic'')\<rparr>)
      = ([[Elem \<lparr>year = 2020, make' = js ''Toyota'', model = js ''Corolla''\<rparr>,
           Elem \<lparr>year = 2015, make' = js ''Ford'', model = js ''Mustang''\<rparr>],
          [Elem \<lparr>year = 2020, make' = js ''Toyota'', model = js ''Corolla''\<rparr>,
           Elem \<lparr>year = 2015, make' = js ''Ford'', model = js ''Mustang''\<rparr>,
           Elem \<lparr>year = 1999, make' = js ''Honda'', model = js ''Civic''\<rparr>]],
         \<lparr>cars = useState 1, carYear = useState 2026, carMake = useState [], carModel = useState []\<rparr>)"
  using handleAddCar_spec
    [of "[[Elem \<lparr>year = 2020::int, make' = js ''Toyota'', model = js ''Corolla''\<rparr>,
           Elem \<lparr>year = 2015, make' = js ''Ford'', model = js ''Mustang''\<rparr>]]" 0
        "[\<lparr>year = 2020::int, make' = js ''Toyota'', model = js ''Corolla''\<rparr>,
          \<lparr>year = 2015, make' = js ''Ford'', model = js ''Mustang''\<rparr>]"
        2026 1999 "js ''Honda''" "js ''Civic''"]
  by (simp add: deref_def)

section \<open>Changing the car details\<close>

text \<open>
  Claim C7. On the car \<open>{year: y, make: mk, model: md}\<close> and the input string \<open>s\<close>, the
  render after \<open>handleYearChange\<close> shows \<open>{Number(s), mk, md}\<close>, after \<open>handleMakeChange\<close>
  \<open>{y, s, md}\<close>, and after \<open>handleModelChange\<close> \<open>{y, mk, s}\<close>.
\<close>

theorem car_details_change_spec:
  "CarDetails_render h
      (handleYearChange Number s \<lparr>car = useState \<lparr>year = y, make' = mk, model = md\<rparr>\<rparr>)
     = (h, \<lparr>car = useState \<lparr>year = Number s, make' = mk, model = md\<rparr>\<rparr>)
   \<and> CarDetails_render h
      (handleMakeChange s \<lparr>car = useState \<lparr>year = y, make' = mk, model = md\<rparr>\<rparr>)
     = (h, \<lparr>car = useState \<lparr>year = y, make' = s, model = md\<rparr>\<rparr>)
   \<and> CarDetails_render h
      (handleModelChange s \<lparr>car = useState \<lparr>year = y, make' = mk, model = md\<rparr>\<rparr>)
     = (h, \<lparr>car = useState \<lparr>year = y, make' = mk, model = s\<rparr>\<rparr>)"
  by (simp add: handleYearChange_def handleMakeChange_def handleModelChange_def
      CarDetails_render_def updater_def hook_simps)

section \<open>Incrementing a counter twice before the next render\<close>

text \<open>
  Claim C4, at the \<open>Counter\<close> of the \<open>useState\<close> notes: \<open>increment\<close> passes the value
  \<open>count + 1\<close> computed from the current render, so two calls before the next render leave
  the count at 1 from 0, not at 2. And at the largest safe integer \<open>2 ^ 53 - 1\<close> the second
  addition of the updater \<open>c => c + 1\<close> rounds: two calls of \<open>handleIncrement\<close> leave
  \<open>2 ^ 53\<close>, not \<open>2 ^ 53 + 1\<close>.
\<close>

theorem increment_twice_counterexample:
  "Counter_render ([] :: unit heap) (increment (increment Counter_init))
     = ([], \<lparr>Counter.count = useState 1\<rparr>)
   \<and> Counter_render ([] :: unit heap) (increment (increment Counter_init))
     \<noteq> ([], \<lparr>Counter.count = useState (0 + 2)\<rparr>)
   \<and> Counter_render ([] :: unit heap)
        (handleIncrement (handleIncrement \<lparr>Counter.count = useState (2 ^ 53 - 1)\<rparr>))
     = ([], \<lparr>Counter.count = useState (2 ^ 53)\<rparr>)
   \<and> Counter_render ([] :: unit heap)
        (handleIncrement (handleIncrement \<lparr>Counter.count = useState (2 ^ 53 - 1)\<rparr>))
     \<noteq> ([], \<lparr>Counter.count = useState (2 ^ 53 - 1 + 2)\<rparr>)"
  by (simp add: Counter_init_def increment_def handleIncrement_def updater_def Counter_render_def
      commit_def setState_def useState_def number_add_def round_double_exact round_double_limit)

text \<open>
  Claim C4, amended. \<open>handleIncrement\<close> and \<open>handleAddCount\<close> queue an updater function:
  for a count \<open>c\<close> with \<open>- 2 ^ 53 \<le> c \<le> 2 ^ 53 - 2\<close>, two calls before the next render
  leave the count at \<open>c + 2\<close>. \<open>increment\<close> of the \<open>Counter\<close> component queues the value
  \<open>count + 1\<close>: for \<open>- 2 ^ 53 \<le> c \<le> 2 ^ 53 - 1\<close>, two calls leave it at \<open>c + 1\<close>.
  With other updates already queued and for any count, the two updaters add 1 twice (each
  addition rounded) to what the render would have shown, and \<open>increment\<close> shows the count
  of the current render plus 1 (rounded).
\<close>

theorem increment_twice_spec:
  "(- (2 ^ 53) \<le> c \<and> c \<le> 2 ^ 53 - 2 \<longrightarrow>
      Counter_render h (handleIncrement (handleIncrement \<lparr>Counter.count = useState c\<rparr>))
        = (h, \<lparr>Counter.count = useState (c + 2)\<rparr>)
      \<and> EffectExample_render h
           (handleAddCount (handleAddCount \<lparr>count = useState c, color = useState k\<rparr>))
        = (h, \<lparr>count = useState (c + 2), color = useState k\<rparr>))
   \<and> (- (2 ^ 53) \<le> c \<and> c \<le> 2 ^ 53 - 1 \<longrightarrow>
      Counter_render h (increment (increment \<lparr>Counter.count = useState c\<rparr>))
        = (h, \<lparr>Counter.count = useState (c + 1)\<rparr>))
   \<and> Counter_render h (handleIncrement (handleIncrement st))
     = (fst (Counter_render h st),
        \<lparr>Counter.count = useState
           (number_add (number_add (cur (Counter.count (snd (Counter_render h st)))) 1) 1)\<rparr>)
   \<and> EffectExample_render h (handleAddCount (handleAddCount e))
     = (fst (EffectExample_render h e),
        \<lparr>count = useState (number_add (number_add (cur (count (snd (EffectExample_render h e)))) 1) 1),
         color = color (snd (EffectExample_render h e))\<rparr>)
   \<and> Counter_render h (increment (increment st))
     = (fst (Counter_render h st),
        \<lparr>Counter.count = useState (number_add (cur (Counter.count st)) 1)\<rparr>)"
proof -
  have queued:
    "Counter_render h (handleIncrement (handleIncrement st))
       = (fst (Counter_render h st),
          \<lparr>Counter.count = useState
             (number_add (number_add (cur (Counter.count (snd (Counter_render h st)))) 1) 1)\<rparr>)"
    "EffectExample_render h (handleAddCount (handleAddCount e))
       = (fst (EffectExample_render h e),
          \<lparr>count = useState (number_add (number_add (cur (count (snd (EffectExample_render h e)))) 1) 1),
           color = color (snd (EffectExample_render h e))\<rparr>)"
    "Counter_render h (increment (increment st))
       = (fst (Counter_render h st),
          \<lparr>Counter.count = useState (number_add (cur (Counter.count st)) 1)\<rparr>)"
    by (simp_all add: handleIncrement_def handleAddCount_def increment_def Counter_render_def
        EffectExample_render_def updater_def commit_def setState_def run_queue_append
        cur_useState split: prod.splits)
  have two: "number_add (number_add c 1) 1 = c + 2" if "- (2 ^ 53) \<le> c" "c \<le> 2 ^ 53 - 2"
  proof -
    have "round_double (c + 1) = c + 1"
      using that by (intro round_double_exact) simp
    moreover have "round_double (c + 1 + 1) = c + 1 + 1"
      using that by (intro round_double_exact) simp
    ultimately show ?thesis
      by (simp add: number_add_def)
  qed
  have one: "number_add c 1 = c + 1" if "- (2 ^ 53) \<le> c" "c \<le> 2 ^ 53 - 1"
    unfolding number_add_def using that by (intro round_double_exact) simp
  have updaters:
    "Counter_render h (handleIncrement (handleIncrement \<lparr>Counter.count = useState c\<rparr>))
       = (h, \<lparr>Counter.count = useState (c + 2)\<rparr>)"
    "EffectExample_render h
        (handleAddCount (handleAddCount \<lparr>count = useState c, color = useState k\<rparr>))
       = (h, \<lparr>count = useState (c + 2), color = useState k\<rparr>)"
    if "- (2 ^ 53) \<le> c \<and> c \<le> 2 ^ 53 - 2"
    using that two
    by (simp_all add: handleIncrement_def handleAddCount_def Counter_render_def
        EffectExample_render_def updater_def commit_def setState_def useState_def)
  have direct:
    "Counter_render h (increment (increment \<lparr>Counter.count = useState c\<rparr>))
       = (h, \<lparr>Counter.count = useState (c + 1)\<rparr>)"
    if "- (2 ^ 53) \<le> c \<and> c \<le> 2 ^ 53 - 1"
    using that one
    by (simp add: increment_def Counter_render_def commit_def setState_def useState_def)
  show ?thesis
    by (intro conjI impI updaters direct queued) simp_all
qed

theorem increment_twice_spec_witness:
  "- (2 ^ 53) \<le> (2 ^ 53 - 2 :: int) \<and> (2 ^ 53 - 2 :: int) \<le> 2 ^ 53 - 2
   \<and> Counter_render ([] :: unit heap)
        (handleIncrement (handleIncrement \<lparr>Counter.count = useState (2 ^ 53 - 2)\<rparr>))
      = ([], \<lparr>Counter.count = useState (2 ^ 53)\<rparr>)
   \<and> EffectExample_render ([] :: unit heap)
        (handleAddCount (handleAddCount \<lparr>count = useState (2 ^ 53 - 2), color = useState (js ''green'')\<rparr>))
      = ([], \<lparr>count = useState (2 ^ 53), color = useState (js ''green'')\<rparr>)
   \<and> - (2 ^ 53) \<le> (0 :: int) \<and> (0 :: int) \<le> 2 ^ 53 - 1
   \<and> Counter_render ([] :: unit heap) (increment (increment \<lparr>Counter.count = useState 0\<rparr>))
      = ([], \<lparr>Counter.count = useState 1\<rparr>)"
  using increment_twice_spec [of "2 ^ 53 - 2" "[] :: unit heap" "js ''green''" Counter_init
        "\<lparr>count = useState 0, color = useState (js ''green'')\<rparr>"]
    increment_twice_spec [of 0 "[] :: unit heap" "js ''green''" Counter_init
        "\<lparr>count = useState 0, color = useState (js ''green'')\<rparr>"]
  by simp

section \<open>Keys of rendered list items\<close>

text \<open>
  Claim C6, at the to-do list: the task \<open>Brush Teeth\<close> is rendered with key 1 at first and
  with key 0 once the task before it has been deleted.
\<close>

theorem index_key_counterexample:
  "keys_of (Elem (js ''Brush Teeth'')) (case_prod ToDoList_items ToDoList_init) = [1]
   \<and> keys_of (Elem (js ''Brush Teeth''))
        (case_prod ToDoList_items
          (case_prod ToDoList_render (case_prod (handleDeleteTask 0) ToDoList_init))) = [0]"
  by (simp add: keys_of_def ToDoList_items_def ToDoList_init_def handleDeleteTask_def
      ToDoList_render_def array_map_def array_filter_def alloc_def deref_def commit_def
      setState_def useState_def js_def)

text \<open>
  Claim C6, amended. \<open>List\<close> gives each item the key \<open>item.id\<close>, whatever surrounds the
  item; its keys are distinct exactly when the ids are, as they are for the two collections
  \<open>App\<close> passes. The to-do, car and food lists give the item at position \<open>i\<close> the key
  \<open>i\<close>: distinct within one render, and positional.
\<close>

theorem keys_spec:
  "key (List_listItems (xs @ item # ys) ! length xs) = id' item
   \<and> map key (List_listItems items) = map id' items
   \<and> (distinct (map key (List_listItems items)) \<longleftrightarrow> distinct (map id' items))
   \<and> distinct (map key (List_listItems fruits))
   \<and> distinct (map key (List_listItems groceries))
   \<and> (deref h r = map Elem ts \<longrightarrow>
        ToDoList_items h \<lparr>tasks = useState r, newTask = nt\<rparr>
          = map (\<lambda>i. \<lparr>key = int i, content = Elem (ts ! i)\<rparr>) [0..<length ts]
        \<and> distinct (map key (ToDoList_items h \<lparr>tasks = useState r, newTask = nt\<rparr>)))
   \<and> (deref hc rc = map Elem cs \<longrightarrow>
        CarInventory_items hc \<lparr>cars = useState rc, carYear = y, carMake = mk, carModel = md\<rparr>
          = map (\<lambda>i. \<lparr>key = int i, content = Elem (cs ! i)\<rparr>) [0..<length cs]
        \<and> distinct (map key
             (CarInventory_items hc \<lparr>cars = useState rc, carYear = y, carMake = mk, carModel = md\<rparr>)))
   \<and> (deref hf rf = map Elem fs \<longrightarrow>
        FoodList_items hf \<lparr>food = useState rf\<rparr>
          = map (\<lambda>i. \<lparr>key = int i, content = Elem (fs ! i)\<rparr>) [0..<length fs]
        \<and> distinct (map key (FoodList_items hf \<lparr>food = useState rf\<rparr>)))"
proof -
  have d: "distinct (map (\<lambda>i. int i) [0..<n])" for n
    by (simp add: distinct_map inj_on_def)
  have 1: "key (List_listItems (xs @ item # ys) ! length xs) = id' item"
    by (simp add: List_listItems_def nth_append)
  have 2: "map key (List_listItems items) = map id' items"
    by (simp add: List_listItems_def)
  have 3: "distinct (map key (List_listItems fruits))" "distinct (map key (List_listItems groceries))"
    by (simp_all add: List_listItems_def fruits_def groceries_def)
  show ?thesis
    using d
    by (simp add: 1 2 3 ToDoList_items_def CarInventory_items_def FoodList_items_def
        cur_useState array_map_Elem comp_def)
qed

theorem keys_spec_witness:
  "deref (fst ToDoList_init) 0 = map Elem [js ''Wake up'', js ''Brush Teeth'', js ''Eat Breakfast'']
   \<and> map key (ToDoList_items (fst ToDoList_init) (snd ToDoList_init)) = [0, 1, 2]
   \<and> deref [[Elem \<lparr>year = 2020::int, make' = js ''Toyota'', model = js ''Corolla''\<rparr>]] 0
        = map Elem [\<lparr>year = 2020, make' = js ''Toyota'', model = js ''Corolla''\<rparr>]
   \<and> map key (CarInventory_items
          [[Elem \<lparr>year = 2020::int, make' = js ''Toyota'', model = js ''Corolla''\<rparr>]]
          \<lparr>cars = useState 0, carYear = useState 2026, carMake = useState [], carModel = useState []\<rparr>)
        = [0]
   \<and> deref (fst FoodList_init) 0 = map Elem [js ''Apple'', js ''Banana'', js ''Orange'']
   \<and> map key (FoodList_items (fst FoodList_init) (snd FoodList_init)) = [0, 1, 2]"
  using keys_spec [of "[]" "hd fruits" "[]" "fruits"
      "fst ToDoList_init" 0 "[js ''Wake up'', js ''Brush Teeth'', js ''Eat Breakfast'']" "useState []"
      "[[Elem \<lparr>year = 2020::int, make' = js ''Toyota'', model = js ''Corolla''\<rparr>]]" 0
      "[\<lparr>year = 2020::int, make' = js ''Toyota'', model = js ''Corolla''\<rparr>]"
      "useState 2026" "useState []" "useState []"
      "fst FoodList_init" 0 "[js ''Apple'', js ''Banana'', js ''Orange'']"]
  by (simp add: ToDoList_init_def FoodList_init_def deref_def)

section \<open>The resize listener\<close>

text \<open>
  Claim C8. On a window whose listeners are existing function objects, mounting the
  component appends the one listener \<open>(resize, handleResize)\<close>; the cleanup returned by the
  effect removes that pair from whatever it is run on, so running it after the effect
  restores the window's listeners.
\<close>

theorem resize_effect_cleanup:
  assumes "listeners_exist w"
  shows "listeners (fst (WindowSize_mount w)) = listeners w @ [(''resize'', created w)]
       \<and> listeners (snd (WindowSize_mount w) (fst (WindowSize_mount w))) = listeners w
       \<and> listeners (snd (WindowSize_mount w) w') = remove1 (''resize'', created w) (listeners w')"
proof -
  have "(''resize'', created w) \<notin> set (listeners w)"
    using assms by (auto simp: listeners_exist_def list_all_iff)
  then show ?thesis
    by (simp add: WindowSize_mount_def resize_effect_def addEventListener_def
        removeEventListener_def console_log_def remove1_append)
qed

theorem resize_effect_cleanup_witness:
  "listeners_exist \<lparr>innerWidth = 800::int, innerHeight = 600, listeners = [(''resize'', 0), (''click'', 1)],
                    console = [], created = 2\<rparr>
   \<and> listeners (fst (WindowSize_mount
        \<lparr>innerWidth = 800::int, innerHeight = 600, listeners = [(''resize'', 0), (''click'', 1)],
         console = [], created = 2\<rparr>))
      = [(''resize'', 0), (''click'', 1), (''resize'', 2)]
   \<and> listeners (snd (WindowSize_mount
        \<lparr>innerWidth = 800::int, innerHeight = 600, listeners = [(''resize'', 0), (''click'', 1)],
         console = [], created = 2\<rparr>)
       (fst (WindowSize_mount
        \<lparr>innerWidth = 800::int, innerHeight = 600, listeners = [(''resize'', 0), (''click'', 1)],
         console = [], created = 2\<rparr>)))
      = [(''resize'', 0), (''click'', 1)]"
  using resize_effect_cleanup [of "\<lparr>innerWidth = 800::int, innerHeight = 600,
      listeners = [(''resize'', 0), (''click'', 1)], console = [], created = 2\<rparr>"]
  by (simp add: listeners_exist_def)

section \<open>Controlled and uncontrolled inputs\<close>

text \<open>
  Claim C1, at the food list: its input has neither a \<open>value\<close> prop nor an \<open>onChange\<close>
  handler.
\<close>

theorem food_input_counterexample:
  "\<not> list_all is_controlled (FoodList_inputs (snd FoodList_init) :: (int, FoodList) input_element list)"
  by (simp add: FoodList_inputs_def is_controlled_def)

text \<open>
  Claim C1, amended. Every form element of the order form, the to-do list, the car
  inventory, the car details and the color picker is controlled: its \<open>value\<close> prop (for a
  radio input its \<open>checked\<close> prop) is computed from the state, and after a change to \<open>v\<close>
  the next render holds \<open>v\<close> (for a number input \<open>Number(v)\<close>) in that state and nothing else
  changed. The input of the food list has no \<open>value\<close>, \<open>checked\<close> or \<open>onChange\<close> prop;
  \<open>handleAddFood\<close> reads its value from the document, appends it and clears the element.
\<close>

theorem controlled_inputs_spec:
  "list_all is_controlled (OrderForm_inputs Number (c :: ('e, 'n) OrderForm))
   \<and> map value_prop (OrderForm_inputs Number c)
       = [Some (Str (cur (OrderForm.name c))), Some (Num (cur (quantity c))),
          Some (Str (cur (comment c))), Some (Str (cur (payment c))),
          Some (Str (js ''Pickup'')), Some (Str (js ''Delivery''))]
   \<and> map checked_prop (OrderForm_inputs Number c)
       = [None, None, None, None,
          Some (cur (shipping c) = js ''Pickup''), Some (cur (shipping c) = js ''Delivery'')]
   \<and> map (after_change OrderForm_render h v
             \<lparr>OrderForm.name = useState n, quantity = useState q, comment = useState cm,
              payment = useState p, shipping = useState s\<rparr>)
          (OrderForm_inputs Number
             \<lparr>OrderForm.name = useState n, quantity = useState q, comment = useState cm,
              payment = useState p, shipping = useState s\<rparr>)
       = [Some (h, \<lparr>OrderForm.name = useState v, quantity = useState q, comment = useState cm,
                    payment = useState p, shipping = useState s\<rparr>),
          Some (h, \<lparr>OrderForm.name = useState n, quantity = useState (Number v), comment = useState cm,
                    payment = useState p, shipping = useState s\<rparr>),
          Some (h, \<lparr>OrderForm.name = useState n, quantity = useState q, comment = useState v,
                    payment = useState p, shipping = useState s\<rparr>),
          Some (h, \<lparr>OrderForm.name = useState n, quantity = useState q, comment = useState cm,
                    payment = useState v, shipping = useState s\<rparr>),
          Some (h, \<lparr>OrderForm.name = useState n, quantity = useState q, comment = useState cm,
                    payment = useState p, shipping = useState v\<rparr>),
          Some (h, \<lparr>OrderForm.name = useState n, quantity = useState q, comment = useState cm,
                    payment = useState p, shipping = useState v\<rparr>)]
   \<and> list_all is_controlled (ToDoList_inputs t :: ('n, ToDoList) input_element list)
   \<and> map value_prop (ToDoList_inputs t :: ('n, ToDoList) input_element list) = [Some (Str (cur (newTask t)))]
   \<and> map (after_change ToDoList_render ht v \<lparr>tasks = useState r, newTask = useState nt\<rparr>)
          (ToDoList_inputs \<lparr>tasks = useState r, newTask = useState nt\<rparr> :: ('n, ToDoList) input_element list)
       = [Some (ht, \<lparr>tasks = useState r, newTask = useState v\<rparr>)]
   \<and> list_all is_controlled (CarInventory_inputs Number ci)
   \<and> map value_prop (CarInventory_inputs Number ci)
       = [Some (Num (cur (carYear ci))), Some (Str (cur (carMake ci))), Some (Str (cur (carModel ci)))]
   \<and> map (after_change CarInventory_render hc v
             \<lparr>cars = useState rc, carYear = useState y, carMake = useState mk, carModel = useState md\<rparr>)
          (CarInventory_inputs Number
             \<lparr>cars = useState rc, carYear = useState y, carMake = useState mk, carModel = useState md\<rparr>)
       = [Some (hc, \<lparr>cars = useState rc, carYear = useState (Number v), carMake = useState mk,
                     carModel = useState md\<rparr>),
          Some (hc, \<lparr>cars = useState rc, carYear = useState y, carMake = useState v,
                     carModel = useState md\<rparr>),
          Some (hc, \<lparr>cars = useState rc, carYear = useState y, carMake = useState mk,
                     carModel = useState v\<rparr>)]
   \<and> list_all is_controlled (CarDetails_inputs Number cd)
   \<and> map value_prop (CarDetails_inputs Number cd)
       = [Some (Num (year (cur (car cd)))), Some (Str (make' (cur (car cd)))),
          Some (Str (model (cur (car cd))))]
   \<and> map (after_change CarDetails_render h v
             \<lparr>car = useState \<lparr>year = y, make' = mk, model = md\<rparr>\<rparr>)
          (CarDetails_inputs Number \<lparr>car = useState \<lparr>year = y, make' = mk, model = md\<rparr>\<rparr>)
       = [Some (h, \<lparr>car = useState \<lparr>year = Number v, make' = mk, model = md\<rparr>\<rparr>),
          Some (h, \<lparr>car = useState \<lparr>year = y, make' = v, model = md\<rparr>\<rparr>),
          Some (h, \<lparr>car = useState \<lparr>year = y, make' = mk, model = v\<rparr>\<rparr>)]
   \<and> list_all is_controlled (ColorPicker_inputs cp :: ('n, 'e ColorPicker) input_element list)
   \<and> map value_prop (ColorPicker_inputs cp :: ('n, 'e ColorPicker) input_element list) = [Some (Str (cur (ColorPicker.color cp)))]
   \<and> map (after_change ColorPicker_render h v \<lparr>ColorPicker.color = useState k\<rparr>)
          (ColorPicker_inputs \<lparr>ColorPicker.color = useState k\<rparr> :: ('n, 'e ColorPicker) input_element list)
       = [Some (h, \<lparr>ColorPicker.color = useState v\<rparr>)]
   \<and> map value_prop (FoodList_inputs f :: ('n, FoodList) input_element list) = [None]
   \<and> map checked_prop (FoodList_inputs f :: ('n, FoodList) input_element list) = [None]
   \<and> map onChange (FoodList_inputs f :: ('n, FoodList) input_element list) = [None]
   \<and> fst (handleAddFood d \<lparr>food = useState rf\<rparr>) = d\<lparr>foodInput := []\<rparr>
   \<and> (deref hf rf = map Elem fs \<longrightarrow>
        FoodList_render hf (snd (handleAddFood d \<lparr>food = useState rf\<rparr>))
          = (hf @ [map Elem (fs @ [foodInput d])], \<lparr>food = useState (length hf)\<rparr>))"
proof -
  have order: "list_all is_controlled (OrderForm_inputs Number c)"
    "list_all is_controlled (ToDoList_inputs t)"
    "list_all is_controlled (CarInventory_inputs Number ci)"
    "list_all is_controlled (CarDetails_inputs Number cd)"
    "list_all is_controlled (ColorPicker_inputs cp)"
    by (simp_all add: OrderForm_inputs_def ToDoList_inputs_def CarInventory_inputs_def
        CarDetails_inputs_def ColorPicker_inputs_def is_controlled_def)
  have props: "map value_prop (OrderForm_inputs Number c)
       = [Some (Str (cur (OrderForm.name c))), Some (Num (cur (quantity c))),
          Some (Str (cur (comment c))), Some (Str (cur (payment c))),
          Some (Str (js ''Pickup'')), Some (Str (js ''Delivery''))]"
    "map checked_prop (OrderForm_inputs Number c)
       = [None, None, None, None,
          Some (cur (shipping c) = js ''Pickup''), Some (cur (shipping c) = js ''Delivery'')]"
    "map value_prop (ToDoList_inputs t) = [Some (Str (cur (newTask t)))]"
    "map value_prop (CarInventory_inputs Number ci)
       = [Some (Num (cur (carYear ci))), Some (Str (cur (carMake ci))), Some (Str (cur (carModel ci)))]"
    "map value_prop (CarDetails_inputs Number cd)
       = [Some (Num (year (cur (car cd)))), Some (Str (make' (cur (car cd)))),
          Some (Str (model (cur (car cd))))]"
    "map value_prop (ColorPicker_inputs cp) = [Some (Str (cur (ColorPicker.color cp)))]"
    "map value_prop (FoodList_inputs f) = [None]"
    "map checked_prop (FoodList_inputs f) = [None]"
    "map onChange (FoodList_inputs f) = [None]"
    by (simp_all add: OrderForm_inputs_def ToDoList_inputs_def CarInventory_inputs_def
        CarDetails_inputs_def ColorPicker_inputs_def FoodList_inputs_def)
  have form: "map (after_change OrderForm_render h v
             \<lparr>OrderForm.name = useState n, quantity = useState q, comment = useState cm,
              payment = useState p, shipping = useState s\<rparr>)
          (OrderForm_inputs Number
             \<lparr>OrderForm.name = useState n, quantity = useState q, comment = useState cm,
              payment = useState p, shipping = useState s\<rparr>)
       = [Some (h, \<lparr>OrderForm.name = useState v, quantity = useState q, comment = useState cm,
                    payment = useState p, shipping = useState s\<rparr>),
          Some (h, \<lparr>OrderForm.name = useState n, quantity = useState (Number v), comment = useState cm,
                    payment = useState p, shipping = useState s\<rparr>),
          Some (h, \<lparr>OrderForm.name = useState n, quantity = useState q, comment = useState v,
                    payment = useState p, shipping = useState s\<rparr>),
          Some (h, \<lparr>OrderForm.name = useState n, quantity = useState q, comment = useState cm,
                    payment = useState v, shipping = useState s\<rparr>),
          Some (h, \<lparr>OrderForm.name = useState n, quantity = useState q, comment = useState cm,
                    payment = useState p, shipping = useState v\<rparr>),
          Some (h, \<lparr>OrderForm.name = useState n, quantity = useState q, comment = useState cm,
                    payment = useState p, shipping = useState v\<rparr>)]"
    by (simp add: after_change_def OrderForm_inputs_def OrderForm_render_def handleNameChange_def
        handleQuantityChange_def handleCommentChange_def handlePaymentChange_def
        handleShippingChange_def hook_simps)
  have todo: "map (after_change ToDoList_render ht v \<lparr>tasks = useState r, newTask = useState nt\<rparr>)
          (ToDoList_inputs \<lparr>tasks = useState r, newTask = useState nt\<rparr>)
       = [Some (ht, \<lparr>tasks = useState r, newTask = useState v\<rparr>)]"
    by (simp add: after_change_def ToDoList_inputs_def ToDoList_render_def handleInputChange_def
        hook_simps)
  have inv: "map (after_change CarInventory_render hc v
             \<lparr>cars = useState rc, carYear = useState y, carMake = useState mk, carModel = useState md\<rparr>)
          (CarInventory_inputs Number
             \<lparr>cars = useState rc, carYear = useState y, carMake = useState mk, carModel = useState md\<rparr>)
       = [Some (hc, \<lparr>cars = useState rc, carYear = useState (Number v), carMake = useState mk,
                     carModel = useState md\<rparr>),
          Some (hc, \<lparr>cars = useState rc, carYear = useState y, carMake = useState v,
                     carModel = useState md\<rparr>),
          Some (hc, \<lparr>cars = useState rc, carYear = useState y, carMake = useState mk,
                     carModel = useState v\<rparr>)]"
    by (simp add: after_change_def CarInventory_inputs_def CarInventory_render_def
        handleCarYearChange_def handleCarMakeChange_def handleCarModelChange_def hook_simps)
  have det: "map (after_change CarDetails_render h v
             \<lparr>car = useState \<lparr>year = y, make' = mk, model = md\<rparr>\<rparr>)
          (CarDetails_inputs Number \<lparr>car = useState \<lparr>year = y, make' = mk, model = md\<rparr>\<rparr>)
       = [Some (h, \<lparr>car = useState \<lparr>year = Number v, make' = mk, model = md\<rparr>\<rparr>),
          Some (h, \<lparr>car = useState \<lparr>year = y, make' = v, model = md\<rparr>\<rparr>),
          Some (h, \<lparr>car = useState \<lparr>year = y, make' = mk, model = v\<rparr>\<rparr>)]"
    by (simp add: after_change_def CarDetails_inputs_def CarDetails_render_def
        handleYearChange_def handleMakeChange_def handleModelChange_def updater_def hook_simps)
  have pick: "map (after_change ColorPicker_render h v \<lparr>ColorPicker.color = useState k\<rparr>)
          (ColorPicker_inputs \<lparr>ColorPicker.color = useState k\<rparr>)
       = [Some (h, \<lparr>ColorPicker.color = useState v\<rparr>)]"
    by (simp add: after_change_def ColorPicker_inputs_def ColorPicker_render_def
        handleColorChange_def hook_simps)
  have food: "fst (handleAddFood d \<lparr>food = useState rf\<rparr>) = d\<lparr>foodInput := []\<rparr>"
    "deref hf rf = map Elem fs \<longrightarrow>
        FoodList_render hf (snd (handleAddFood d \<lparr>food = useState rf\<rparr>))
          = (hf @ [map Elem (fs @ [foodInput d])], \<lparr>food = useState (length hf)\<rparr>)"
    by (simp_all add: handleAddFood_def FoodList_render_def hook_simps heap_simps Let_def)
  show ?thesis
    by (intro conjI order props form todo inv det pick food)
qed

theorem controlled_inputs_spec_witness:
  "deref (fst FoodList_init) 0 = map Elem [js ''Apple'', js ''Banana'', js ''Orange'']
   \<and> FoodList_render (fst FoodList_init)
        (snd (handleAddFood \<lparr>foodInput = js ''Pear''\<rparr> (snd FoodList_init)))
      = (fst FoodList_init @ [map Elem [js ''Apple'', js ''Banana'', js ''Orange'', js ''Pear'']],
         \<lparr>food = useState 1\<rparr>)"
  using controlled_inputs_spec [of "\<lambda>_. 0::int" "OrderForm_init :: (unit, int) OrderForm" "[]" "[]" "[]" 0 "[]" "[]" "[]"
     "snd ToDoList_init" "[]" 0 "[]"
     "snd (CarInventory_init (2026::int))" "[]" 0 0 "[]" "[]"
     "CarDetails_init :: (unit, int) CarDetails" "ColorPicker_init :: unit ColorPicker" "[]" "snd FoodList_init"
     "\<lparr>foodInput = js ''Pear''\<rparr>" 0 "fst FoodList_init" "[js ''Apple'', js ''Banana'', js ''Orange'']"]
  by (simp add: FoodList_init_def deref_def)

end
